theory Spec2Isabelle
  imports Complex_Main "HOL-Library.Word"
begin

section \<open>The machine actions worker (worker/machineactions/worker.go)\<close>

text \<open>
  The worker watches the actions enqueued for one machine agent and runs them through a
  configured handler.  Everything it talks to lives outside the file: the API facade, the
  \<open>names\<close> package, the \<open>exec\<close> package and the logger.  Those are parameters of the model;
  what the worker does with them is recorded as a list of events, in the order of the calls.
\<close>

subsection \<open>Errors\<close>

text \<open>
  An error is what \<open>err.Error()\<close> prints.  \<open>errors.Errorf\<close> builds one from its formatted
  text, \<open>errors.Trace\<close> wraps one and keeps its text.
\<close>

datatype error = Errorf string | Trace error

fun Error :: "error \<Rightarrow> string" where
  "Error (Errorf msg) = msg"
| "Error (Trace err) = Error err"

subsection \<open>Loosely typed values and mappings\<close>

text \<open>
  A value of type \<open>interface{}\<close> is tagged with its dynamic type.  \<open>V_nil\<close> is the nil
  interface, which is also what indexing a mapping at a missing key gives.
\<close>

text \<open>
  A \<open>float64\<close>: a number, modelled by the real it denotes, or one of the values that are
  no number.  The two zeros are one value here; they convert alike.
\<close>

datatype float64 = Float real | PosInf | NegInf | NaN

datatype iface = V_nil | V_string string | V_float64 float64 | V_int int | V_bool bool

text \<open>
  \<open>map[string]interface{}\<close>; \<open>None\<close> is the nil mapping, which has no entries and can be
  read like an empty one.
\<close>

type_synonym gomap = "(string \<rightharpoonup> iface) option"

definition entries :: "gomap \<Rightarrow> (string \<rightharpoonup> iface)" where
  "entries m = (case m of None \<Rightarrow> Map.empty | Some f \<Rightarrow> f)"

text \<open>\<open>m[k]\<close>: the zero value (nil interface) when the key is missing.\<close>

definition index :: "gomap \<Rightarrow> string \<Rightarrow> iface" where
  "index m k = (case entries m k of None \<Rightarrow> V_nil | Some v \<Rightarrow> v)"

text \<open>
  The two-valued type assertions \<open>v, ok := x.(string)\<close> and \<open>v, ok := x.(float64)\<close>: the
  zero value and \<open>false\<close> when the dynamic type differs; they never panic.
\<close>

fun assert_string :: "iface \<Rightarrow> string \<times> bool" where
  "assert_string (V_string s) = (s, True)"
| "assert_string _ = ('''', False)"

fun assert_float64 :: "iface \<Rightarrow> float64 \<times> bool" where
  "assert_float64 (V_float64 f) = (f, True)"
| "assert_float64 _ = (Float 0, False)"

subsection \<open>Actions, statuses and the facade\<close>

text \<open>
  Modelled from the spec: the two terminal statuses \<open>params.ActionCompleted\<close> and
  \<open>params.ActionCancelled\<close>, whose declarations (package apiserver/params) are not part of
  the source at hand; the spec lists the status of a finish request as one of
  Completed and Cancelled.
\<close>

datatype status = ActionCompleted | ActionCancelled

text \<open>What the worker reads of a \<open>machineactions.Action\<close>: \<open>Name()\<close> and \<open>Params()\<close>.\<close>

record machineactions_Action =
  Name :: string
  Params :: gomap

text \<open>What the worker reads of a \<open>params.ActionResult\<close>: \<open>action.Action.Tag\<close>.\<close>

record ActionResult =
  Action_Tag :: string

text \<open>
  The events of a run.  A call to the facade or to the handler is recorded with its
  arguments and with what it returned; \<open>Log\<close> is a line written with \<open>logger.Infof\<close>.
\<close>

datatype 'tag event =
    RunningActions_call
  | Action_call 'tag "error + machineactions_Action"
  | ActionBegin_call 'tag "error option"
  | HandleAction_call string gomap gomap "error option"
  | ActionFinish_call 'tag status gomap string "error option"
  | Log string
  | WatchActionNotifications_call

text \<open>
  The \<open>Facade\<close> interface.  The facade is remote and stateful, so each capability is given
  the events that happened before the call and may answer differently every time.  An
  \<open>error option\<close> is Go's \<open>error\<close> result, \<open>None\<close> for nil.
\<close>

record ('tag, 'agent, 'watcher) Facade =
  WatchActionNotifications :: "'tag event list \<Rightarrow> 'agent \<Rightarrow> error + 'watcher"
  RunningActions :: "'tag event list \<Rightarrow> 'agent \<Rightarrow> error + ActionResult list"
  Action :: "'tag event list \<Rightarrow> 'tag \<Rightarrow> error + machineactions_Action"
  ActionBegin :: "'tag event list \<Rightarrow> 'tag \<Rightarrow> error option"
  ActionFinish :: "'tag event list \<Rightarrow> 'tag \<Rightarrow> status \<Rightarrow> gomap \<Rightarrow> string \<Rightarrow> error option"

text \<open>
  \<open>WorkerConfig\<close>.  \<open>HandleAction\<close> returns a result mapping and an error, as the Go
  function does; it may have effects of its own, so it sees the earlier events too.
\<close>

record ('tag, 'agent, 'watcher) WorkerConfig =
  Facade :: "('tag, 'agent, 'watcher) Facade"
  AgentTag :: "'agent"
  HandleAction :: "'tag event list \<Rightarrow> string \<Rightarrow> gomap \<Rightarrow> gomap \<times> error option"

text \<open>
  The functions of package \<open>names\<close> (github.com/juju/names) that the worker calls.
  \<open>NewActionTag\<close> has no error result; \<open>None\<close> stands for a panic inside it.
\<close>

record 'tag names =
  IsValidAction :: "string \<Rightarrow> bool"
  NewActionTag :: "string \<Rightarrow> 'tag option"
  ParseActionTag :: "string \<Rightarrow> error + 'tag"

subsection \<open>Handle\<close>

text \<open>
  How a call of \<open>Handle\<close> ends: with the error it returns (\<open>None\<close> for nil) or in a panic.
  How one pass through the body of its loop ends: by leaving the function, or by reaching
  the end of the body, after which the loop takes the next identifier.
\<close>

datatype result = Returned "error option" | Panicked

datatype flow = Leave result | Next_iteration

text \<open>
  The body of the loop for one identifier.  \<open>hist\<close> are the events before the call; the
  events of this pass are returned.  The error built for an invalid identifier is not
  used by the source, so it is bound and dropped here too.
\<close>

definition Handle_body ::
  "'tag names \<Rightarrow> ('tag, 'agent, 'watcher) WorkerConfig \<Rightarrow> 'tag event list \<Rightarrow> string
    \<Rightarrow> flow \<times> 'tag event list" where
  "Handle_body nm h hist actionId =
    (let ok = IsValidAction nm actionId;
         unused = (if \<not> ok then Some (Errorf (''got invalid action id '' @ actionId)) else None)
     in case NewActionTag nm actionId of
          None \<Rightarrow> (Leave Panicked, [])
        | Some actionTag \<Rightarrow>
           (let got = Action (Facade h) hist actionTag;
                ev1 = [Action_call actionTag got]
            in case got of
                 Inl err \<Rightarrow>
                   (Leave (Returned (Some (Errorf (''could not retrieve action '' @ actionId)))), ev1)
               | Inr action \<Rightarrow>
                  (let name = Name action;
                       actionParams = Params action;
                       begun = ActionBegin (Facade h) (hist @ ev1) actionTag;
                       ev2 = ev1 @ [ActionBegin_call actionTag begun]
                   in case begun of
                        Some err \<Rightarrow>
                          (Leave (Returned (Some (Errorf (''could not begin action '' @ name)))), ev2)
                      | None \<Rightarrow>
                         (let handled = HandleAction h (hist @ ev2) (Name action) (Params action);
                              ev3 = ev2 @ [HandleAction_call (Name action) (Params action)
                                             (fst handled) (snd handled)]
                          in case snd handled of
                               Some err \<Rightarrow>
                                 (let fin = ActionFinish (Facade h) (hist @ ev3) actionTag
                                              ActionCancelled None (Error err)
                                  in (Leave (Returned fin),
                                      ev3 @ [ActionFinish_call actionTag ActionCancelled None
                                               (Error err) fin]))
                             | None \<Rightarrow>
                                 (let fin = ActionFinish (Facade h) (hist @ ev3) actionTag
                                              ActionCompleted (fst handled) ''''
                                  in (Leave (Returned fin),
                                      ev3 @ [ActionFinish_call actionTag ActionCompleted
                                               (fst handled) '''' fin]))))))"

text \<open>
  \<open>Handle\<close>: the loop over the delivered identifiers, and \<open>return nil\<close> after it.
\<close>

fun Handle ::
  "'tag names \<Rightarrow> ('tag, 'agent, 'watcher) WorkerConfig \<Rightarrow> 'tag event list \<Rightarrow> string list
    \<Rightarrow> result \<times> 'tag event list" where
  "Handle nm h hist [] = (Returned None, [])"
| "Handle nm h hist (actionId # rest) =
    (case Handle_body nm h hist actionId of
       (Leave r, evs) \<Rightarrow> (r, evs)
     | (Next_iteration, evs) \<Rightarrow>
         (case Handle nm h (hist @ evs) rest of (r, evs') \<Rightarrow> (r, evs @ evs')))"

text \<open>The finish requests among some events: tag, status, result mapping and message.\<close>

fun finish_requests :: "'tag event list \<Rightarrow> ('tag \<times> status \<times> gomap \<times> string) list" where
  "finish_requests [] = []"
| "finish_requests (ActionFinish_call t s r m resp # evs) = (t, s, r, m) # finish_requests evs"
| "finish_requests (_ # evs) = finish_requests evs"

subsection \<open>SetUp\<close>

text \<open>
  The body of the loop of \<open>SetUp\<close> for one running action: parse its tag, ask for a
  cancelled finish with no results; either failure is logged and the loop goes on.
\<close>

definition cancel_message :: "string \<Rightarrow> error \<Rightarrow> string" where
  "cancel_message tag err =
     ''tried to cancel action '' @ tag @ '' but failed with error '' @ Error err"

definition SetUp_body ::
  "'tag names \<Rightarrow> ('tag, 'agent, 'watcher) WorkerConfig \<Rightarrow> 'tag event list \<Rightarrow> ActionResult
    \<Rightarrow> 'tag event list" where
  "SetUp_body nm h hist action =
    (case ParseActionTag nm (Action_Tag action) of
       Inl err \<Rightarrow> [Log (cancel_message (Action_Tag action) err)]
     | Inr tag \<Rightarrow>
        (let fin = ActionFinish (Facade h) hist tag ActionCancelled None ''action cancelled'';
             ev = [ActionFinish_call tag ActionCancelled None ''action cancelled'' fin]
         in case fin of
              Some err \<Rightarrow> ev @ [Log (cancel_message (Action_Tag action) err)]
            | None \<Rightarrow> ev))"

fun SetUp_loop ::
  "'tag names \<Rightarrow> ('tag, 'agent, 'watcher) WorkerConfig \<Rightarrow> 'tag event list \<Rightarrow> ActionResult list
    \<Rightarrow> 'tag event list" where
  "SetUp_loop nm h hist [] = []"
| "SetUp_loop nm h hist (action # actions) =
    (let evs = SetUp_body nm h hist action
     in evs @ SetUp_loop nm h (hist @ evs) actions)"

text \<open>
  \<open>SetUp\<close>: list the running actions (a failure is returned, traced), cancel them, then
  open the watcher and return what that call returns.
\<close>

definition SetUp ::
  "'tag names \<Rightarrow> ('tag, 'agent, 'watcher) WorkerConfig \<Rightarrow> 'tag event list
    \<Rightarrow> (error + 'watcher) \<times> 'tag event list" where
  "SetUp nm h hist =
    (let ev0 = [RunningActions_call]
     in case RunningActions (Facade h) hist (AgentTag h) of
          Inl err \<Rightarrow> (Inl (Trace err), ev0)
        | Inr actions \<Rightarrow>
           (let evs = ev0 @ SetUp_loop nm h (hist @ ev0) actions
            in (WatchActionNotifications (Facade h) (hist @ evs) (AgentTag h),
                evs @ [WatchActionNotifications_call])))"

text \<open>The lines logged among some events.\<close>

fun log_lines :: "'tag event list \<Rightarrow> string list" where
  "log_lines [] = []"
| "log_lines (Log l # evs) = l # log_lines evs"
| "log_lines (_ # evs) = log_lines evs"

text \<open>The finish calls among some events that returned an error.\<close>

fun failed_finishes :: "'tag event list \<Rightarrow> nat" where
  "failed_finishes [] = 0"
| "failed_finishes (ActionFinish_call t s r m (Some err) # evs) = Suc (failed_finishes evs)"
| "failed_finishes (_ # evs) = failed_finishes evs"

text \<open>
  The cancellations \<open>SetUp\<close> owes for a list of running actions: one for each action
  whose tag parses, in the order of the list.
\<close>

fun cancellations :: "'tag names \<Rightarrow> ActionResult list \<Rightarrow> ('tag \<times> status \<times> gomap \<times> string) list" where
  "cancellations nm [] = []"
| "cancellations nm (action # actions) =
    (case ParseActionTag nm (Action_Tag action) of
       Inl err \<Rightarrow> cancellations nm actions
     | Inr tag \<Rightarrow> (tag, ActionCancelled, None, ''action cancelled'') # cancellations nm actions)"

fun unparsable :: "'tag names \<Rightarrow> ActionResult list \<Rightarrow> nat" where
  "unparsable nm [] = 0"
| "unparsable nm (action # actions) =
    (case ParseActionTag nm (Action_Tag action) of
       Inl err \<Rightarrow> Suc (unparsable nm actions)
     | Inr tag \<Rightarrow> unparsable nm actions)"

subsection \<open>The juju-run handler\<close>

text \<open>
  \<open>exec.RunParams\<close> and \<open>exec.ExecResponse\<close> (github.com/juju/utils/exec), with the fields
  the worker sets and reads.  Byte strings are strings.
\<close>

record 'clock RunParams =
  Commands :: string
  Environment :: "string list"
  Clock :: "'clock"

record ExecResponse =
  Code :: int
  Stdout :: string
  Stderr :: string

text \<open>
  The channel handed to \<open>WaitWithCancel\<close>: nil, which never delivers, or the channel the
  timer closes once \<open>clock.After(timeout)\<close> has delivered.
\<close>

datatype 'clock chan = Nil_chan | Closed_after "'clock" "64 word"

text \<open>
  The surroundings of a command: \<open>os.Environ()\<close>, \<open>clock.WallClock\<close> and the two methods of
  \<open>exec.RunParams\<close>.  \<open>WaitWithCancel\<close> returns a response and an error, and either may be
  nil, as in Go.  \<open>Unrepresentable\<close> is what the platform's conversion to \<open>int64\<close> gives for
  a \<open>float64\<close> that \<open>int64\<close> cannot represent: Go leaves that result to the implementation.
\<close>

record 'clock system =
  Environ :: "string list"
  WallClock :: "'clock"
  Unrepresentable :: "float64 \<Rightarrow> 64 word"
  Run :: "'clock RunParams \<Rightarrow> error option"
  WaitWithCancel :: "'clock RunParams \<Rightarrow> 'clock chan \<Rightarrow> ExecResponse option \<times> error option"

text \<open>
  \<open>time.Duration(timeout)\<close>.  A \<open>time.Duration\<close> is an \<open>int64\<close> count of nanoseconds, read
  from the word with \<open>sint\<close>.  The conversion of a \<open>float64\<close> drops the fraction, rounding
  towards zero; where the outcome is no \<open>int64\<close>, or the value is no number, the result is
  the platform's.
\<close>

definition truncation :: "real \<Rightarrow> int" where
  "truncation x = (if 0 \<le> x then \<lfloor>x\<rfloor> else \<lceil>x\<rceil>)"

definition Duration :: "'clock system \<Rightarrow> float64 \<Rightarrow> 64 word" where
  "Duration sys f =
    (case f of
       Float x \<Rightarrow>
         (if - (2 ^ 63) \<le> truncation x \<and> truncation x < 2 ^ 63
          then word_of_int (truncation x) else Unrepresentable sys f)
     | _ \<Rightarrow> Unrepresentable sys f)"

text \<open>What a command execution did, in order; \<open>Timer_started\<close> is the \<open>go\<close> statement.\<close>

datatype 'clock exec_event =
    Run_call "'clock RunParams" "error option"
  | Timer_started "'clock" "64 word"
  | WaitWithCancel_call "'clock RunParams" "'clock chan" "ExecResponse option \<times> error option"

definition runCommandWithTimeout ::
  "'clock system \<Rightarrow> string \<Rightarrow> 64 word \<Rightarrow> 'clock
    \<Rightarrow> (ExecResponse option \<times> error option) \<times> 'clock exec_event list" where
  "runCommandWithTimeout sys command timeout clock =
    (let cmd = \<lparr>Commands = command, Environment = Environ sys, Clock = clock\<rparr>;
         started = Run sys cmd;
         ev1 = [Run_call cmd started]
     in case started of
          Some err \<Rightarrow> ((None, Some (Trace err)), ev1)
        | None \<Rightarrow>
           (let cancel = (if timeout \<noteq> 0 then Closed_after clock timeout else Nil_chan);
                ev2 = (if timeout \<noteq> 0 then ev1 @ [Timer_started clock timeout] else ev1);
                waited = WaitWithCancel sys cmd cancel
            in (waited, ev2 @ [WaitWithCancel_call cmd cancel waited])))"

text \<open>The result mapping built from a response; empty when there is none.\<close>

definition actionResults :: "ExecResponse option \<Rightarrow> gomap" where
  "actionResults res =
    (case res of
       None \<Rightarrow> Some Map.empty
     | Some r \<Rightarrow>
         Some [''Code'' \<mapsto> V_int (Code r),
               ''Stdout'' \<mapsto> V_string (Stdout r),
               ''Stderr'' \<mapsto> V_string (Stderr r)])"

definition handleJujuRunAction ::
  "'clock system \<Rightarrow> gomap \<Rightarrow> (gomap \<times> error option) \<times> 'clock exec_event list" where
  "handleJujuRunAction sys params =
    (let command = fst (assert_string (index params ''command''));
         timeout = fst (assert_float64 (index params ''timeout''));
         ran = runCommandWithTimeout sys command (Duration sys timeout) (WallClock sys)
     in ((actionResults (fst (fst ran)), snd (fst ran)), snd ran))"

text \<open>
  Modelled from the spec: the constant \<open>actions.JujuRunActionName\<close> (package core/actions,
  not part of the source at hand); the spec names the built-in action "juju-run".
\<close>

definition JujuRunActionName :: string where
  "JujuRunActionName = ''juju-run''"

text \<open>The package-level \<open>HandleAction\<close>, the handler a machine agent configures.\<close>

definition HandleAction_fn ::
  "'clock system \<Rightarrow> string \<Rightarrow> gomap \<Rightarrow> (gomap \<times> error option) \<times> 'clock exec_event list" where
  "HandleAction_fn sys name params =
    (if name = JujuRunActionName then handleJujuRunAction sys params
     else ((None, Some (Errorf (''unexpected action '' @ name))), []))"

text \<open>The tags whose action record was asked of the facade, and the timers started.\<close>

fun fetched :: "'tag event list \<Rightarrow> 'tag list" where
  "fetched [] = []"
| "fetched (Action_call t got # evs) = t # fetched evs"
| "fetched (_ # evs) = fetched evs"

fun timers :: "'clock exec_event list \<Rightarrow> ('clock \<times> 64 word) list" where
  "timers [] = []"
| "timers (Timer_started c d # evs) = (c, d) # timers evs"
| "timers (_ # evs) = timers evs"

subsection \<open>A test double\<close>

text \<open>
  A small world to run the worker in, in the manner of the package's tests: tags are
  strings, the only invalid identifier is \<open>bad\<close>, every command prints \<open>hi\<close>, the
  conversion of an unrepresentable \<open>float64\<close> gives the least \<open>int64\<close> (as on amd64), and
  the facade fails for a few chosen tags.  \<open>stub_names\<close> follows juju/names, where
  \<open>NewActionTag\<close> panics on an invalid identifier; \<open>lenient_names\<close> makes a tag of anything.
\<close>

definition stub_names :: "string names" where
  "stub_names =
    \<lparr>IsValidAction = (\<lambda>actionId. actionId \<noteq> ''bad''),
     NewActionTag = (\<lambda>actionId. if actionId = ''bad'' then None else Some (''action-'' @ actionId)),
     ParseActionTag = (\<lambda>tag. if tag = ''bad'' then Inl (Errorf ''bad is not a valid action tag'')
                              else Inr tag)\<rparr>"

definition lenient_names :: "string names" where
  "lenient_names = stub_names\<lparr>NewActionTag := (\<lambda>actionId. Some (''action-'' @ actionId))\<rparr>"

definition echo_params :: gomap where
  "echo_params = Some [''command'' \<mapsto> V_string ''echo hi'', ''timeout'' \<mapsto> V_float64 (Float 0)]"


definition stub_system :: "unit system" where
  "stub_system =
    \<lparr>Environ = [],
     WallClock = (),
     Unrepresentable = (\<lambda>f. word_of_int (- (2 ^ 63))),
     Run = (\<lambda>cmd. if Commands cmd = [] then Some (Errorf ''no command'') else None),
     WaitWithCancel = (\<lambda>cmd cancel. (Some \<lparr>Code = 0, Stdout = ''hi'', Stderr = []\<rparr>, None))\<rparr>"

definition stub_Facade :: "(string, string, nat) Facade" where
  "stub_Facade =
    \<lparr>WatchActionNotifications = (\<lambda>hist agent. Inr 7),
     RunningActions = (\<lambda>hist agent.
        Inr [\<lparr>Action_Tag = ''action-1''\<rparr>, \<lparr>Action_Tag = ''bad''\<rparr>,
             \<lparr>Action_Tag = ''action-gone''\<rparr>, \<lparr>Action_Tag = ''action-2''\<rparr>]),
     Action = (\<lambda>hist tag.
        if tag = ''action-missing'' then Inl (Errorf ''action not found'')
        else Inr \<lparr>Name = (if tag = ''action-noop'' then ''custom-noop'' else ''juju-run''),
                  Params = echo_params\<rparr>),
     ActionBegin = (\<lambda>hist tag.
        if tag = ''action-stale'' then Some (Errorf ''action already running'') else None),
     ActionFinish = (\<lambda>hist tag status results message.
        if tag = ''action-gone'' then Some (Errorf ''action not found'') else None)\<rparr>"

definition stub_config :: "(string, string, nat) WorkerConfig" where
  "stub_config =
    \<lparr>Facade = stub_Facade,
     AgentTag = ''machine-0'',
     HandleAction = (\<lambda>hist name params. fst (HandleAction_fn stub_system name params))\<rparr>"

section \<open>Properties\<close>

lemmas stub_defs = stub_names_def lenient_names_def echo_params_def stub_system_def
  stub_Facade_def stub_config_def HandleAction_fn_def JujuRunActionName_def
  handleJujuRunAction_def runCommandWithTimeout_def actionResults_def index_def entries_def
  Duration_def truncation_def

subsection \<open>Handle\<close>

text \<open>No pass through the body of the loop reaches its end: each one leaves \<open>Handle\<close>.\<close>

lemma Handle_body_leaves: "fst (Handle_body nm h hist actionId) \<noteq> Next_iteration"
  by (simp add: Handle_body_def Let_def split: option.split sum.split)

text \<open>So the identifiers after the first have no part in what \<open>Handle\<close> does.\<close>

lemma Handle_first_only: "Handle nm h hist (actionId # rest) = Handle nm h hist [actionId]"
  using Handle_body_leaves [of nm h hist actionId]
  by (cases "Handle_body nm h hist actionId") (auto split: flow.split)

text \<open>Nor has the validity of an identifier: the check is made and its outcome dropped.\<close>

lemma Handle_body_ignores_validity:
  "Handle_body (nm\<lparr>IsValidAction := v\<rparr>) h hist actionId = Handle_body nm h hist actionId"
  by (simp add: Handle_body_def Let_def)

lemma Handle_ignores_validity:
  "Handle (nm\<lparr>IsValidAction := v\<rparr>) h hist ids = Handle nm h hist ids"
  by (induction ids arbitrary: hist)
    (simp_all add: Handle_body_ignores_validity split: prod.split flow.split)

text \<open>
  C1.  The claim: every identifier of a delivered batch is fetched, begun, dispatched and
  finished, one at a time and in order, and none is discarded.  The comment on \<open>Handle\<close>
  says as much ("We try to execute every action before returning"), but the body returns
  after the first identifier.  On the batch \<open>1\<close>, \<open>2\<close>, with a facade and a handler that
  never fail, \<open>Handle\<close> returns nil, and only the first action was fetched and finished.
\<close>

theorem Handle_batch_of_two:
  "fst (Handle stub_names stub_config [] [''1'', ''2'']) = Returned None \<and>
   fetched (snd (Handle stub_names stub_config [] [''1'', ''2''])) = [''action-1''] \<and>
   map fst (finish_requests (snd (Handle stub_names stub_config [] [''1'', ''2''])))
     = [''action-1'']"
  by (simp add: Handle_body_def stub_defs Let_def)

text \<open>
  C2.  The claim: an invalid identifier is logged and skipped, and the loop goes on with
  the others.  The source builds an error for it and drops the error: nothing is logged
  and nothing is skipped.  On the batch \<open>bad\<close>, \<open>2\<close>: where \<open>NewActionTag\<close> panics on an
  invalid identifier, \<open>Handle\<close> panics; where it makes a tag all the same, the action of
  the invalid identifier is fetched and run.  Either way no line is logged and the
  identifier \<open>2\<close> is never reached.
\<close>

theorem Handle_invalid_identifier:
  "Handle stub_names stub_config [] [''bad'', ''2''] = (Panicked, []) \<and>
   fetched (snd (Handle lenient_names stub_config [] [''bad'', ''2''])) = [''action-bad''] \<and>
   map fst (finish_requests (snd (Handle lenient_names stub_config [] [''bad'', ''2'']))) =
     [''action-bad''] \<and>
   log_lines (snd (Handle lenient_names stub_config [] [''bad'', ''2''])) = []"
  by (simp add: Handle_body_def stub_defs Let_def)

text \<open>
  C3.  Whenever the handler returned an error for an action, the events of that call of
  \<open>Handle\<close> are the fetch, the begin, the handler's call and one finish request for the
  same tag, with status Cancelled, the nil mapping and the text of the handler's error.
  That request is the only finish request, so there is none with status Completed.
\<close>

theorem handler_error_cancelled:
  assumes "HandleAction_call name ps res (Some err) \<in> set (snd (Handle nm h hist ids))"
  shows "\<exists>actionTag action fin.
           Handle nm h hist ids =
             (Returned fin,
              [Action_call actionTag (Inr action), ActionBegin_call actionTag None,
               HandleAction_call name ps res (Some err),
               ActionFinish_call actionTag ActionCancelled None (Error err) fin]) \<and>
           Name action = name \<and> Params action = ps \<and>
           finish_requests (snd (Handle nm h hist ids)) =
             [(actionTag, ActionCancelled, None, Error err)] \<and>
           entries None = Map.empty"
proof (cases ids)
  case Nil
  with assms show ?thesis by simp
next
  case (Cons actionId rest)
  with assms show ?thesis
    by (auto simp: Handle_body_def Let_def entries_def split: option.splits sum.splits)
qed

theorem handler_error_cancelled_witness:
  "\<exists>actionTag action fin.
     Handle stub_names stub_config [] [''noop''] =
       (Returned fin,
        [Action_call actionTag (Inr action), ActionBegin_call actionTag None,
         HandleAction_call ''custom-noop'' echo_params None
           (Some (Errorf ''unexpected action custom-noop'')),
         ActionFinish_call actionTag ActionCancelled None ''unexpected action custom-noop'' fin]) \<and>
     Name action = ''custom-noop'' \<and> Params action = echo_params \<and>
     finish_requests (snd (Handle stub_names stub_config [] [''noop''])) =
       [(actionTag, ActionCancelled, None, ''unexpected action custom-noop'')] \<and>
     entries None = Map.empty"
proof -
  have "HandleAction_call ''custom-noop'' echo_params None
          (Some (Errorf ''unexpected action custom-noop''))
        \<in> set (snd (Handle stub_names stub_config [] [''noop'']))"
    by (simp add: Handle_body_def Let_def stub_names_def stub_config_def stub_Facade_def
        HandleAction_fn_def JujuRunActionName_def)
  from handler_error_cancelled [OF this] show ?thesis by simp
qed

text \<open>
  C4.  Whenever the handler returned without an error, the events of that call of
  \<open>Handle\<close> are the fetch, the begin, the handler's call and one finish request for the
  same tag, with status Completed, the handler's result mapping and the empty message.
  That request is the only finish request, so there is none with status Cancelled.
\<close>

theorem handler_success_completed:
  assumes "HandleAction_call name ps res None \<in> set (snd (Handle nm h hist ids))"
  shows "\<exists>actionTag action fin.
           Handle nm h hist ids =
             (Returned fin,
              [Action_call actionTag (Inr action), ActionBegin_call actionTag None,
               HandleAction_call name ps res None,
               ActionFinish_call actionTag ActionCompleted res [] fin]) \<and>
           Name action = name \<and> Params action = ps \<and>
           finish_requests (snd (Handle nm h hist ids)) =
             [(actionTag, ActionCompleted, res, [])]"
proof (cases ids)
  case Nil
  with assms show ?thesis by simp
next
  case (Cons actionId rest)
  with assms show ?thesis
    by (auto simp: Handle_body_def Let_def split: option.splits sum.splits)
qed

theorem handler_success_completed_witness:
  "\<exists>actionTag action fin.
     Handle stub_names stub_config [] [''1''] =
       (Returned fin,
        [Action_call actionTag (Inr action), ActionBegin_call actionTag None,
         HandleAction_call ''juju-run'' echo_params
           (actionResults (Some \<lparr>Code = 0, Stdout = ''hi'', Stderr = []\<rparr>)) None,
         ActionFinish_call actionTag ActionCompleted
           (actionResults (Some \<lparr>Code = 0, Stdout = ''hi'', Stderr = []\<rparr>)) [] fin]) \<and>
     Name action = ''juju-run'' \<and> Params action = echo_params \<and>
     finish_requests (snd (Handle stub_names stub_config [] [''1''])) =
       [(actionTag, ActionCompleted,
         actionResults (Some \<lparr>Code = 0, Stdout = ''hi'', Stderr = []\<rparr>), [])]"
proof -
  have "HandleAction_call ''juju-run'' echo_params
          (actionResults (Some \<lparr>Code = 0, Stdout = ''hi'', Stderr = []\<rparr>)) None
        \<in> set (snd (Handle stub_names stub_config [] [''1'']))"
    by (simp add: Handle_body_def Let_def stub_defs)
  from handler_success_completed [OF this] show ?thesis by simp
qed

text \<open>
  C9.  A failed fetch ends \<open>Handle\<close> at once with the error "could not retrieve action"
  and the identifier; a failed begin ends it with "could not begin action" and the
  action's name.  In both cases the failed call is the last event: nothing is logged,
  the handler is not called and no finish is requested.
\<close>

theorem fetch_or_begin_failure_fatal:
  "(Action_call actionTag (Inl err) \<in> set (snd (Handle nm h hist ids)) \<longrightarrow>
      (\<exists>actionId rest. ids = actionId # rest \<and>
         Handle nm h hist ids =
           (Returned (Some (Errorf (''could not retrieve action '' @ actionId))),
            [Action_call actionTag (Inl err)]))) \<and>
   (ActionBegin_call actionTag (Some err) \<in> set (snd (Handle nm h hist ids)) \<longrightarrow>
      (\<exists>action.
         Handle nm h hist ids =
           (Returned (Some (Errorf (''could not begin action '' @ Name action))),
            [Action_call actionTag (Inr action), ActionBegin_call actionTag (Some err)])))"
proof (cases ids)
  case Nil
  then show ?thesis by simp
next
  case (Cons actionId rest)
  then show ?thesis
    by (auto simp: Handle_body_def Let_def split: option.splits sum.splits)
qed

theorem fetch_or_begin_failure_fatal_witness:
  "Handle stub_names stub_config [] [''missing'', ''1''] =
     (Returned (Some (Errorf ''could not retrieve action missing'')),
      [Action_call ''action-missing'' (Inl (Errorf ''action not found''))]) \<and>
   Handle stub_names stub_config [] [''stale'', ''1''] =
     (Returned (Some (Errorf ''could not begin action juju-run'')),
      [Action_call ''action-stale'' (Inr \<lparr>Name = ''juju-run'', Params = echo_params\<rparr>),
       ActionBegin_call ''action-stale'' (Some (Errorf ''action already running''))])"
proof -
  have fetched_failed: "Action_call ''action-missing'' (Inl (Errorf ''action not found''))
        \<in> set (snd (Handle stub_names stub_config [] [''missing'', ''1'']))"
    by (simp add: Handle_body_def Let_def stub_names_def stub_config_def stub_Facade_def)
  have begin_failed: "ActionBegin_call ''action-stale'' (Some (Errorf ''action already running''))
        \<in> set (snd (Handle stub_names stub_config [] [''stale'', ''1'']))"
    by (simp add: Handle_body_def Let_def stub_names_def stub_config_def stub_Facade_def)
  from fetched_failed
    fetch_or_begin_failure_fatal
      [of "''action-missing''" "Errorf ''action not found''" stub_names stub_config "[]"
          "[''missing'', ''1'']"]
  have one: "Handle stub_names stub_config [] [''missing'', ''1''] =
     (Returned (Some (Errorf ''could not retrieve action missing'')),
      [Action_call ''action-missing'' (Inl (Errorf ''action not found''))])"
    by auto
  from begin_failed
    fetch_or_begin_failure_fatal
      [of "''action-stale''" "Errorf ''action already running''" stub_names stub_config "[]"
          "[''stale'', ''1'']"]
  obtain action where two: "Handle stub_names stub_config [] [''stale'', ''1''] =
     (Returned (Some (Errorf (''could not begin action '' @ Name action))),
      [Action_call ''action-stale'' (Inr action),
       ActionBegin_call ''action-stale'' (Some (Errorf ''action already running''))])"
    by auto
  have "Handle stub_names stub_config [] [''stale'', ''1''] =
     (Returned (Some (Errorf ''could not begin action juju-run'')),
      [Action_call ''action-stale'' (Inr \<lparr>Name = ''juju-run'', Params = echo_params\<rparr>),
       ActionBegin_call ''action-stale'' (Some (Errorf ''action already running''))])"
    by (simp add: Handle_body_def Let_def stub_names_def stub_config_def stub_Facade_def)
  with one show ?thesis by simp
qed

subsection \<open>SetUp\<close>

lemma finish_requests_append:
  "finish_requests (xs @ ys) = finish_requests xs @ finish_requests ys"
  by (induction xs rule: finish_requests.induct) simp_all

lemma log_lines_append: "log_lines (xs @ ys) = log_lines xs @ log_lines ys"
  by (induction xs rule: log_lines.induct) simp_all

lemma failed_finishes_append:
  "failed_finishes (xs @ ys) = failed_finishes xs + failed_finishes ys"
  by (induction xs rule: failed_finishes.induct) simp_all

lemma SetUp_loop_finish_requests:
  "finish_requests (SetUp_loop nm h hist actions) = cancellations nm actions"
  by (induction actions arbitrary: hist)
    (simp_all add: finish_requests_append SetUp_body_def Let_def split: sum.split option.split)

lemma SetUp_loop_log_lines:
  "length (log_lines (SetUp_loop nm h hist actions)) =
     unparsable nm actions + failed_finishes (SetUp_loop nm h hist actions)"
  by (induction actions arbitrary: hist)
    (simp_all add: log_lines_append failed_finishes_append SetUp_body_def Let_def
      split: sum.split option.split)

text \<open>
  C5, as the claim states it, fails.  The facade of the test double reports four running
  actions, and the tag of the second does not parse; \<open>SetUp\<close> requests three finishes,
  none of them for that action.
\<close>

theorem SetUp_unparsable_counterexample:
  "RunningActions (Facade stub_config) [] (AgentTag stub_config) =
     Inr [\<lparr>Action_Tag = ''action-1''\<rparr>, \<lparr>Action_Tag = ''bad''\<rparr>,
          \<lparr>Action_Tag = ''action-gone''\<rparr>, \<lparr>Action_Tag = ''action-2''\<rparr>] \<and>
   map fst (finish_requests (snd (SetUp stub_names stub_config []))) =
     [''action-1'', ''action-gone'', ''action-2'']"
  by (simp add: SetUp_def SetUp_body_def Let_def stub_names_def stub_config_def stub_Facade_def)

text \<open>
  C5, amended.  When the facade has listed the running actions, \<open>SetUp\<close> requests one
  finish for each action whose tag parses, in the order of the list, each with status
  Cancelled, the nil mapping and the message "action cancelled"; an action whose tag
  does not parse gets a log line and no request.  Every failure is logged: there are as
  many log lines as unparsable tags and failed finish calls together.  No failure ends
  the start-up: the last event is the call that opens the watcher, and \<open>SetUp\<close> returns
  what that call returns.
\<close>

theorem SetUp_cancels_running:
  assumes "RunningActions (Facade h) hist (AgentTag h) = Inr actions"
  shows "finish_requests (snd (SetUp nm h hist)) = cancellations nm actions \<and>
         length (cancellations nm actions) + unparsable nm actions = length actions \<and>
         length (log_lines (snd (SetUp nm h hist))) =
           unparsable nm actions + failed_finishes (snd (SetUp nm h hist)) \<and>
         (\<exists>evs. snd (SetUp nm h hist) = evs @ [WatchActionNotifications_call] \<and>
                fst (SetUp nm h hist) =
                  WatchActionNotifications (Facade h) (hist @ evs) (AgentTag h))"
proof -
  have "length (cancellations nm actions) + unparsable nm actions = length actions"
    by (induction actions) (simp_all split: sum.split)
  with assms show ?thesis
    by (simp add: SetUp_def Let_def finish_requests_append log_lines_append
        failed_finishes_append SetUp_loop_finish_requests SetUp_loop_log_lines)
qed

theorem SetUp_cancels_running_witness:
  "finish_requests (snd (SetUp stub_names stub_config [])) =
     [(''action-1'', ActionCancelled, None, ''action cancelled''),
      (''action-gone'', ActionCancelled, None, ''action cancelled''),
      (''action-2'', ActionCancelled, None, ''action cancelled'')] \<and>
   length (log_lines (snd (SetUp stub_names stub_config []))) = 2 \<and>
   fst (SetUp stub_names stub_config []) = Inr 7"
proof -
  have listed: "RunningActions (Facade stub_config) [] (AgentTag stub_config) =
     Inr [\<lparr>Action_Tag = ''action-1''\<rparr>, \<lparr>Action_Tag = ''bad''\<rparr>,
          \<lparr>Action_Tag = ''action-gone''\<rparr>, \<lparr>Action_Tag = ''action-2''\<rparr>]"
    by (simp add: stub_config_def stub_Facade_def)
  have failed: "failed_finishes (snd (SetUp stub_names stub_config [])) = 1"
    by (simp add: SetUp_def SetUp_body_def Let_def stub_names_def stub_config_def
        stub_Facade_def)
  have opened: "WatchActionNotifications (Facade stub_config) evs (AgentTag stub_config) = Inr 7"
    for evs
    by (simp add: stub_config_def stub_Facade_def)
  from SetUp_cancels_running [OF listed, of stub_names] failed opened show ?thesis
    by (auto simp: stub_names_def)
qed

subsection \<open>The juju-run handler\<close>

lemma timers_append: "timers (xs @ ys) = timers xs @ timers ys"
  by (induction xs rule: timers.induct) simp_all

lemma Duration_zero: "Duration sys (Float 0) = 0"
  by (simp add: Duration_def truncation_def)




text \<open>
  C10.  Decoding the parameters cannot fail.  When the mapping holds no string under
  \<open>command\<close>, the handler is the execution of the empty command; when it holds no
  \<open>float64\<close> under \<open>timeout\<close>, the handler is an execution with the duration zero, for
  which no timer is started.  The error the handler returns is the error of that
  execution and nothing else.
\<close>

theorem juju_run_decoding_total:
  "((\<forall>s. entries params ''command'' \<noteq> Some (V_string s)) \<longrightarrow>
      handleJujuRunAction sys params =
        (let ran = runCommandWithTimeout sys []
                     (Duration sys (fst (assert_float64 (index params ''timeout''))))
                     (WallClock sys)
         in ((actionResults (fst (fst ran)), snd (fst ran)), snd ran))) \<and>
   ((\<forall>f. entries params ''timeout'' \<noteq> Some (V_float64 f)) \<longrightarrow>
      timers (snd (handleJujuRunAction sys params)) = [] \<and>
      handleJujuRunAction sys params =
        (let ran = runCommandWithTimeout sys (fst (assert_string (index params ''command'')))
                     0 (WallClock sys)
         in ((actionResults (fst (fst ran)), snd (fst ran)), snd ran)))"
proof -
  have command: "fst (assert_string (index params ''command'')) = []"
    if "\<forall>s. entries params ''command'' \<noteq> Some (V_string s)"
    using that by (cases "index params ''command''") (auto simp: index_def split: option.splits)
  have timeout: "fst (assert_float64 (index params ''timeout'')) = Float 0"
    if "\<forall>f. entries params ''timeout'' \<noteq> Some (V_float64 f)"
    using that by (cases "index params ''timeout''") (auto simp: index_def split: option.splits)
  have unbounded: "timers (snd (runCommandWithTimeout sys c 0 clock)) = []" for c clock
    by (simp add: runCommandWithTimeout_def Let_def split: option.split)
  show ?thesis
    using command timeout unbounded
    by (auto simp: handleJujuRunAction_def Let_def Duration_zero)
qed

theorem juju_run_decoding_total_witness:
  "handleJujuRunAction stub_system (Some [''command'' \<mapsto> V_int 3, ''timeout'' \<mapsto> V_string ''soon'']) =
     ((Some Map.empty, Some (Trace (Errorf ''no command''))),
      [Run_call \<lparr>Commands = [], Environment = [], Clock = ()\<rparr> (Some (Errorf ''no command''))]) \<and>
   handleJujuRunAction stub_system (Some [''command'' \<mapsto> V_string ''echo hi'']) =
     ((actionResults (Some \<lparr>Code = 0, Stdout = ''hi'', Stderr = []\<rparr>), None),
      [Run_call \<lparr>Commands = ''echo hi'', Environment = [], Clock = ()\<rparr> None,
       WaitWithCancel_call \<lparr>Commands = ''echo hi'', Environment = [], Clock = ()\<rparr> Nil_chan
         (Some \<lparr>Code = 0, Stdout = ''hi'', Stderr = []\<rparr>, None)])"
proof -
  have no_command:
    "\<forall>s. entries (Some [''command'' \<mapsto> V_int 3, ''timeout'' \<mapsto> V_string ''soon'']) ''command''
          \<noteq> Some (V_string s)"
    by (simp add: entries_def)
  have no_timeout:
    "\<forall>f. entries (Some [''command'' \<mapsto> V_string ''echo hi'']) ''timeout'' \<noteq> Some (V_float64 f)"
    by (simp add: entries_def)
  have one: "handleJujuRunAction stub_system
               (Some [''command'' \<mapsto> V_int 3, ''timeout'' \<mapsto> V_string ''soon'']) =
     ((Some Map.empty, Some (Trace (Errorf ''no command''))),
      [Run_call \<lparr>Commands = [], Environment = [], Clock = ()\<rparr> (Some (Errorf ''no command''))])"
    using no_command
      juju_run_decoding_total
        [of "Some [''command'' \<mapsto> V_int 3, ''timeout'' \<mapsto> V_string ''soon'']" stub_system]
    by (simp add: runCommandWithTimeout_def Let_def index_def entries_def Duration_zero
        actionResults_def stub_system_def)
  have two: "handleJujuRunAction stub_system (Some [''command'' \<mapsto> V_string ''echo hi'']) =
     ((actionResults (Some \<lparr>Code = 0, Stdout = ''hi'', Stderr = []\<rparr>), None),
      [Run_call \<lparr>Commands = ''echo hi'', Environment = [], Clock = ()\<rparr> None,
       WaitWithCancel_call \<lparr>Commands = ''echo hi'', Environment = [], Clock = ()\<rparr> Nil_chan
         (Some \<lparr>Code = 0, Stdout = ''hi'', Stderr = []\<rparr>, None)])"
    using no_timeout
      juju_run_decoding_total [of "Some [''command'' \<mapsto> V_string ''echo hi'']" stub_system]
    by (simp add: runCommandWithTimeout_def Let_def index_def entries_def stub_system_def)
  from one two show ?thesis by simp
qed

end
